theory Spec2Isabelle
  imports Complex_Main
begin

section \<open>Data model of the price parser\<close>

text \<open>
  The price parser works on JavaScript strings and numbers. A \<^typ>\<open>string\<close> of the model is
  a sequence of code units below 256 (ASCII and Latin-1); code units from 256 on are outside
  the model. A JavaScript \<open>number\<close> is an exact rational: the rounding of IEEE doubles, the
  infinities and \<open>NaN\<close> are outside the model, except that \<open>parseFloat\<close> returns \<open>None\<close>
  where JavaScript returns \<open>NaN\<close>.

  The fields \<open>value\<close> and \<open>context\<close> of the interface \<open>ParsedPrice\<close> are reserved words of
  the prover; they are named \<open>price_value\<close> and \<open>price_context\<close>. An optional field
  (\<open>currency?: string\<close>) is an \<open>option\<close>, with \<open>None\<close> for \<open>undefined\<close>.
\<close>

type_synonym number = rat

record ParsedPrice =
  price_value :: number
  originalText :: string
  currency :: "string option"
  isSalePrice :: "bool option"
  price_context :: "string option"

record PriceParsingResult =
  currentPrice :: "ParsedPrice option"
  regularPrice :: "ParsedPrice option"
  discountPercent :: "number option"
  promoText :: "string option"
  errors :: "string list"

text \<open>
  The values a caller can hand to \<open>parsePrice\<close>, whose tests call it with \<open>null\<close>,
  \<open>undefined\<close>, a number and an object. The one operation of the parser that can throw
  is the \<open>RegExp\<close> constructor, on a source text that is not a regular expression.
\<close>

datatype js_value = JUndefined | JNull | JBoolean bool | JNumber number | JString string | JObject

datatype js_error = SyntaxError

section \<open>Strings\<close>

text \<open>
  The character classes of JavaScript regular expressions, on code units below 256:
  \<open>\d\<close>, \<open>\w\<close>, \<open>\s\<close> (which is also the set that \<open>trim\<close> removes) and the line
  terminators, which \<open>.\<close> does not match.
\<close>

definition isDigit :: "char \<Rightarrow> bool" where
  "isDigit c = (c \<in> set ''0123456789'')"

definition isWordChar :: "char \<Rightarrow> bool" where
  "isWordChar c =
     (c \<in> set ''abcdefghijklmnopqrstuvwxyzABCDEFGHIJKLMNOPQRSTUVWXYZ0123456789_'')"

definition isSpace :: "char \<Rightarrow> bool" where
  "isSpace c =
     (c \<in> set [CHR 0x09, CHR 0x0A, CHR 0x0B, CHR 0x0C, CHR 0x0D, CHR 0x20, CHR 0xA0])"

definition isLineTerminator :: "char \<Rightarrow> bool" where
  "isLineTerminator c = (c = CHR 0x0A \<or> c = CHR 0x0D)"

text \<open>
  \<open>toLowerCase\<close> maps \<open>A\<close>-\<open>Z\<close> and the Latin-1 capitals (0xC0-0xDE without the
  multiplication sign 0xD7) to their small letters.
\<close>

definition toLowerChar :: "char \<Rightarrow> char" where
  "toLowerChar c =
     (let n = (of_char c :: int)
      in if (65 \<le> n \<and> n \<le> 90) \<or> (192 \<le> n \<and> n \<le> 222 \<and> n \<noteq> 215)
         then char_of (n + 32) else c)"

definition toLowerCase :: "string \<Rightarrow> string" where
  "toLowerCase s = map toLowerChar s"

definition trim :: "string \<Rightarrow> string" where
  "trim s = rev (dropWhile isSpace (rev (dropWhile isSpace s)))"

fun startsWith :: "string \<Rightarrow> string \<Rightarrow> bool" where
  "startsWith s [] = True"
| "startsWith [] (p # ps) = False"
| "startsWith (c # cs) (p # ps) = (c = p \<and> startsWith cs ps)"

text \<open>\<open>String.prototype.includes\<close> (the name \<open>includes\<close> is reserved).\<close>

fun str_includes :: "string \<Rightarrow> string \<Rightarrow> bool" where
  "str_includes [] sub = (sub = [])"
| "str_includes (c # cs) sub = (startsWith (c # cs) sub \<or> str_includes cs sub)"

section \<open>Regular expressions\<close>

text \<open>
  Each regular expression literal of the source is written as a value of \<open>regex\<close>. An atom
  consumes one code unit: a literal, a literal under the flag \<open>i\<close>, \<open>\d\<close>, \<open>\s\<close>, \<open>\w\<close> or
  \<open>.\<close>. \<open>WordB\<close> is \<open>\b\<close>, \<open>Alt\<close> is \<open>|\<close>, \<open>Star\<close> is the greedy \<open>*\<close>; \<open>Opt\<close> is
  \<open>?\<close>, \<open>Plus\<close> is \<open>+\<close>, \<open>exactly n\<close> is \<open>{n}\<close> and \<open>between m n\<close> is \<open>{m,n}\<close>.

  Under the flag \<open>i\<close> two code units match when their canonical forms (the capital letter)
  are equal; a code unit from 128 on never has an ASCII canonical form.
\<close>

definition canonicalize :: "char \<Rightarrow> char" where
  "canonicalize c =
     (let n = (of_char c :: int)
      in if (97 \<le> n \<and> n \<le> 122) \<or> (224 \<le> n \<and> n \<le> 254 \<and> n \<noteq> 247)
         then char_of (n - 32) else c)"

datatype cclass = Lit char | LitI char | Digit | Space | WordChar | Dot

fun cmatch :: "cclass \<Rightarrow> char \<Rightarrow> bool" where
  "cmatch (Lit a) c = (c = a)"
| "cmatch (LitI a) c = (canonicalize c = canonicalize a)"
| "cmatch Digit c = isDigit c"
| "cmatch Space c = isSpace c"
| "cmatch WordChar c = isWordChar c"
| "cmatch Dot c = (\<not> isLineTerminator c)"

datatype regex = Atom cclass | Eps | WordB | Seq regex regex | Alt regex regex | Star regex

definition Opt :: "regex \<Rightarrow> regex" where
  "Opt r = Alt r Eps"

definition Plus :: "regex \<Rightarrow> regex" where
  "Plus r = Seq r (Star r)"

primrec exactly :: "nat \<Rightarrow> regex \<Rightarrow> regex" where
  "exactly 0 r = Eps"
| "exactly (Suc n) r = Seq r (exactly n r)"

primrec upto :: "nat \<Rightarrow> regex \<Rightarrow> regex" where
  "upto 0 r = Eps"
| "upto (Suc n) r = Opt (Seq r (upto n r))"

definition between :: "nat \<Rightarrow> nat \<Rightarrow> regex \<Rightarrow> regex" where
  "between m n r = Seq (exactly m r) (upto (n - m) r)"


fun litI :: "string \<Rightarrow> regex" where
  "litI [] = Eps"
| "litI (c # cs) = Seq (Atom (LitI c)) (litI cs)"

text \<open>
  A cursor is a position in the text: the code unit before it (none at the start) and the
  rest of the text. \<open>ends r st\<close> lists the cursors where a match of \<open>r\<close> that starts at
  \<open>st\<close> can end, in the order in which the backtracking matcher of JavaScript tries them:
  the first element is the match the engine reports when nothing after \<open>r\<close> fails. A
  repetition takes as many iterations as it can first, and an iteration that consumes
  nothing is not taken.
\<close>

type_synonym cursor = "char option \<times> string"

definition atBoundary :: "cursor \<Rightarrow> bool" where
  "atBoundary st =
     ((case fst st of None \<Rightarrow> False | Some c \<Rightarrow> isWordChar c)
      \<noteq> (case snd st of [] \<Rightarrow> False | c # _ \<Rightarrow> isWordChar c))"

fun ends :: "regex \<Rightarrow> cursor \<Rightarrow> cursor list" where
  "ends (Atom a) (p, []) = []"
| "ends (Atom a) (p, c # cs) = (if cmatch a c then [(Some c, cs)] else [])"
| "ends Eps st = [st]"
| "ends WordB st = (if atBoundary st then [st] else [])"
| "ends (Seq r1 r2) st = concat (map (ends r2) (ends r1 st))"
| "ends (Alt r1 r2) st = ends r1 st @ ends r2 st"
| "ends (Star r) st =
     concat (map (\<lambda>st'. if length (snd st') < length (snd st) then ends (Star r) st' else [])
                 (ends r st)) @ [st]"

text \<open>
  The regular expressions of the source have at most one capture group, never inside a
  repetition or an alternative: a pattern is the part before the group, the group and the
  part after it (a pattern without a group has the whole expression as its group). A match
  holds \<open>match[0]\<close> and \<open>match[1]\<close>.
\<close>

record pattern =
  before_group :: regex
  group1 :: regex
  after_group :: regex

record rmatch =
  m0 :: string
  m1 :: string

definition consumed :: "cursor \<Rightarrow> cursor \<Rightarrow> string" where
  "consumed st st' = take (length (snd st) - length (snd st')) (snd st)"

definition matchAt :: "pattern \<Rightarrow> cursor \<Rightarrow> (rmatch \<times> cursor) option" where
  "matchAt pat st =
     (case concat (map (\<lambda>s1. concat (map (\<lambda>s2. map (\<lambda>s3. (s1, s2, s3))
                                                  (ends (after_group pat) s2))
                                      (ends (group1 pat) s1)))
                       (ends (before_group pat) st)) of
        [] \<Rightarrow> None
      | (s1, s2, s3) # _ \<Rightarrow> Some (\<lparr>m0 = consumed st s3, m1 = consumed s1 s2\<rparr>, s3))"

text \<open>
  \<open>text.matchAll(pattern)\<close> and \<open>text.match(pattern)\<close> with the flag \<open>g\<close>: the matches in
  source order, each search starting where the last match ended (one code unit further
  after an empty match).
\<close>

function matchAllFrom :: "pattern \<Rightarrow> cursor \<Rightarrow> rmatch list" where
  "matchAllFrom pat (p, cs) =
     (case matchAt pat (p, cs) of
        Some (m, (p', cs')) \<Rightarrow>
          if length cs' < length cs then m # matchAllFrom pat (p', cs')
          else (case cs of [] \<Rightarrow> [m] | c # rest \<Rightarrow> m # matchAllFrom pat (Some c, rest))
      | None \<Rightarrow> (case cs of [] \<Rightarrow> [] | c # rest \<Rightarrow> matchAllFrom pat (Some c, rest)))"
  by pat_completeness auto
termination
  by (relation "measure (\<lambda>(pat, st). length (snd st))") auto

definition matchAll :: "string \<Rightarrow> pattern \<Rightarrow> rmatch list" where
  "matchAll text pat = matchAllFrom pat (None, text)"

text \<open>\<open>regex.test(text)\<close>: a match starts somewhere in the text.\<close>

fun searchFrom :: "regex \<Rightarrow> char option \<Rightarrow> string \<Rightarrow> bool" where
  "searchFrom r p [] = (ends r (p, []) \<noteq> [])"
| "searchFrom r p (c # cs) = (ends r (p, c # cs) \<noteq> [] \<or> searchFrom r (Some c) cs)"

definition regexTest :: "regex \<Rightarrow> string \<Rightarrow> bool" where
  "regexTest r text = searchFrom r None text"

section \<open>Numbers\<close>

text \<open>
  \<open>parseFloat\<close> reads the longest prefix that is a decimal literal, after leading white
  space: a sign, digits, a fraction and an exponent. \<open>None\<close> is \<open>NaN\<close>. The literal
  \<open>Infinity\<close> is not modelled; the parser only reads texts of digits and dots.
\<close>

definition digitVal :: "char \<Rightarrow> int" where
  "digitVal c = of_char c - 48"

definition digitsValue :: "string \<Rightarrow> int" where
  "digitsValue ds = foldl (\<lambda>acc c. 10 * acc + digitVal c) 0 ds"

definition parseFloat :: "string \<Rightarrow> number option" where
  "parseFloat s =
     (let t = dropWhile isSpace s;
          neg = (case t of [] \<Rightarrow> False | c # _ \<Rightarrow> c = CHR ''-'');
          u = (case t of [] \<Rightarrow> [] | c # r \<Rightarrow> if c = CHR ''-'' \<or> c = CHR ''+'' then r else t);
          ip = takeWhile isDigit u;
          r1 = dropWhile isDigit u;
          fp = (case r1 of [] \<Rightarrow> [] | c # r2 \<Rightarrow> if c = CHR ''.'' then takeWhile isDigit r2 else []);
          r3 = (case r1 of [] \<Rightarrow> [] | c # r2 \<Rightarrow> if c = CHR ''.'' then dropWhile isDigit r2 else r1);
          mant = of_int (digitsValue ip) + of_int (digitsValue fp) / 10 ^ length fp;
          scaled = (case r3 of
                      [] \<Rightarrow> mant
                    | e # r4 \<Rightarrow>
                        if e = CHR ''e'' \<or> e = CHR ''E'' then
                          (case r4 of
                             [] \<Rightarrow> mant
                           | sg # r5 \<Rightarrow>
                               if sg = CHR ''-'' then
                                 (if takeWhile isDigit r5 = [] then mant
                                  else mant / 10 ^ nat (digitsValue (takeWhile isDigit r5)))
                               else if sg = CHR ''+'' then
                                 (if takeWhile isDigit r5 = [] then mant
                                  else mant * 10 ^ nat (digitsValue (takeWhile isDigit r5)))
                               else
                                 (if takeWhile isDigit r4 = [] then mant
                                  else mant * 10 ^ nat (digitsValue (takeWhile isDigit r4))))
                        else mant)
      in if ip = [] \<and> fp = [] then None
         else Some (if neg then - scaled else scaled))"

text \<open>\<open>Math.round\<close>: the nearest integer, a half rounded up.\<close>

definition Math_round :: "number \<Rightarrow> number" where
  "Math_round x = of_int \<lfloor>x + 1 / 2\<rfloor>"

section \<open>The price parser\<close>

subsection \<open>\<open>extractNumericPrice\<close>\<close>

text \<open>
  The three price patterns of \<open>extractNumericPrice\<close>, in the order of the source:
  \<^verbatim>\<open>/\$(\d{1,3}(?:,\d{3})*(?:\.\d+)?)/g\<close>,
  \<^verbatim>\<open>/\b(\d{1,3}(?:,\d{3})*\.\d{2})\b/g\<close> and
  \<^verbatim>\<open>/\b(\d+(?:\.\d+)?)\b/g\<close>.
\<close>

definition digitGroups :: regex where
  "digitGroups = Seq (between 1 3 (Atom Digit))
                     (Star (Seq (Atom (Lit CHR '','')) (exactly 3 (Atom Digit))))"

definition dollarPattern :: pattern where
  "dollarPattern =
     \<lparr>before_group = Atom (Lit CHR ''$''),
      group1 = Seq digitGroups (Opt (Seq (Atom (Lit CHR ''.'')) (Plus (Atom Digit)))),
      after_group = Eps\<rparr>"

definition decimalPattern :: pattern where
  "decimalPattern =
     \<lparr>before_group = WordB,
      group1 = Seq digitGroups (Seq (Atom (Lit CHR ''.'')) (exactly 2 (Atom Digit))),
      after_group = WordB\<rparr>"

definition numberPattern :: pattern where
  "numberPattern =
     \<lparr>before_group = WordB,
      group1 = Seq (Plus (Atom Digit)) (Opt (Seq (Atom (Lit CHR ''.'')) (Plus (Atom Digit)))),
      after_group = WordB\<rparr>"

definition pricePatterns :: "pattern list" where
  "pricePatterns = [dollarPattern, decimalPattern, numberPattern]"

text \<open>The negative check \<^verbatim>\<open>/\$\s*-/\<close>.\<close>

definition negativePattern :: regex where
  "negativePattern =
     Seq (Atom (Lit CHR ''$'')) (Seq (Star (Atom Space)) (Atom (Lit CHR ''-'')))"

text \<open>
  \<^verbatim>\<open>new RegExp(`save\\s*\\$?${match[1]}\\b`, 'i')\<close> compiles a source text that holds the
  captured text as it is: a dot of the capture is the wildcard. The constructor is modelled
  on sources whose only syntax character is the dot; on any other syntax character the
  model stops with \<open>SyntaxError\<close> (the constructor of JavaScript throws on some of them and
  reads the others as operators). The captures of the three price patterns hold digits,
  commas and dots only, so that branch is never taken (lemma \<open>extractNumericPrice_total\<close>).
\<close>

definition isSyntaxCharacter :: "char \<Rightarrow> bool" where
  "isSyntaxCharacter c = (c \<in> set ''^$.*+?()[]{}|/'' \<or> c = CHR 0x5C)"

fun compileSource :: "string \<Rightarrow> js_error + regex" where
  "compileSource [] = Inr Eps"
| "compileSource (c # cs) =
     (if c = CHR ''.'' then
        (case compileSource cs of Inl e \<Rightarrow> Inl e | Inr r \<Rightarrow> Inr (Seq (Atom Dot) r))
      else if isSyntaxCharacter c then Inl SyntaxError
      else (case compileSource cs of Inl e \<Rightarrow> Inl e | Inr r \<Rightarrow> Inr (Seq (Atom (LitI c)) r)))"

definition savePattern :: "string \<Rightarrow> js_error + regex" where
  "savePattern captured =
     (case compileSource captured of
        Inl e \<Rightarrow> Inl e
      | Inr r \<Rightarrow> Inr (Seq (litI ''save'')
                       (Seq (Star (Atom Space))
                         (Seq (Opt (Atom (Lit CHR ''$''))) (Seq r WordB)))))"

text \<open>
  The inner loop over the matches of one pattern: \<open>Inr (Some parsed)\<close> is \<open>return parsed\<close>,
  \<open>Inr None\<close> is the end of the loop without a return, \<open>Inl\<close> is an exception.
\<close>

fun scanMatches :: "string \<Rightarrow> rmatch list \<Rightarrow> js_error + number option" where
  "scanMatches text [] = Inr None"
| "scanMatches text (m # ms) =
     (let cleaned = filter (\<lambda>c. c \<noteq> CHR '','') (m1 m) in
      case parseFloat cleaned of
        None \<Rightarrow> scanMatches text ms
      | Some parsed \<Rightarrow>
          if parsed > 0 then
            (if str_includes (toLowerCase text) ''save'' then
               (case savePattern (m1 m) of
                  Inl e \<Rightarrow> Inl e
                | Inr re \<Rightarrow>
                    if regexTest re text \<and> parsed < 50 then scanMatches text ms
                    else Inr (Some parsed))
             else Inr (Some parsed))
          else scanMatches text ms)"

text \<open>The outer loop over the patterns; after the last one the function returns \<open>null\<close>.\<close>

fun scanPatterns :: "string \<Rightarrow> pattern list \<Rightarrow> js_error + number option" where
  "scanPatterns text [] = Inr None"
| "scanPatterns text (pat # pats) =
     (let matches = matchAll text pat in
      if matches \<noteq> [] then
        (case scanMatches text matches of
           Inl e \<Rightarrow> Inl e
         | Inr (Some parsed) \<Rightarrow> Inr (Some parsed)
         | Inr None \<Rightarrow> scanPatterns text pats)
      else scanPatterns text pats)"

definition extractNumericPrice :: "string \<Rightarrow> js_error + number option" where
  "extractNumericPrice text =
     (if str_includes text ''$-'' \<or> regexTest negativePattern text
      then Inr None
      else scanPatterns text pricePatterns)"

subsection \<open>The classifiers\<close>

text \<open>The euro sign is the code unit U+20AC, which no string of the model holds.\<close>

definition includesEuroSign :: "string \<Rightarrow> bool" where
  "includesEuroSign text = False"

definition detectCurrency :: "string \<Rightarrow> string option" where
  "detectCurrency text =
     (if str_includes text ''$'' \<or> str_includes (toLowerCase text) ''cad'' then Some ''CAD''
      else if includesEuroSign text then Some ''EUR''
      else if str_includes text [CHR 0xA3] then Some ''GBP''
      else None)"

definition saleIndicators :: "string list" where
  "saleIndicators =
     [''sale'', ''save'', ''was'', ''now'', ''special'', ''promo'', ''discount'',
      ''clearance'', ''reduced'', ''off'', ''%'', ''deal'', ''member'', ''optimum'']"

definition detectSalePrice :: "string \<Rightarrow> bool" where
  "detectSalePrice text =
     (let lowerText = toLowerCase text
      in list_ex (\<lambda>indicator. str_includes lowerText indicator) saleIndicators)"

text \<open>\<^verbatim>\<open>/\b(each|per\s+\w+|from|starting\s+at|up\s+to)\b/i\<close>\<close>

definition contextPattern :: pattern where
  "contextPattern =
     \<lparr>before_group = WordB,
      group1 = Alt (litI ''each'')
              (Alt (Seq (litI ''per'') (Seq (Plus (Atom Space)) (Plus (Atom WordChar))))
              (Alt (litI ''from'')
              (Alt (Seq (litI ''starting'') (Seq (Plus (Atom Space)) (litI ''at'')))
                   (Seq (litI ''up'') (Seq (Plus (Atom Space)) (litI ''to'')))))),
      after_group = WordB\<rparr>"

definition extractContext :: "string \<Rightarrow> string option" where
  "extractContext text =
     (case matchAll text contextPattern of
        [] \<Rightarrow> None
      | m # _ \<Rightarrow> Some (toLowerCase (m1 m)))"

subsection \<open>\<open>parsePrice\<close> and \<open>parsePrices\<close>\<close>

definition parsePrice :: "js_value \<Rightarrow> js_error + ParsedPrice option" where
  "parsePrice priceText =
     (case priceText of
        JString s \<Rightarrow>
          if s = [] then Inr None
          else
            (let trimmed = trim s in
             if trimmed = [] then Inr None
             else
               (case extractNumericPrice trimmed of
                  Inl e \<Rightarrow> Inl e
                | Inr None \<Rightarrow> Inr None
                | Inr (Some numericValue) \<Rightarrow>
                    if numericValue \<le> 0 then Inr None
                    else Inr (Some \<lparr>price_value = numericValue,
                                    originalText = trimmed,
                                    currency = detectCurrency trimmed,
                                    isSalePrice = Some (detectSalePrice trimmed),
                                    price_context = extractContext trimmed\<rparr>)))
      | _ \<Rightarrow> Inr None)"

definition quoted :: "string \<Rightarrow> string" where
  "quoted s = [CHR 0x22] @ s @ [CHR 0x22]"

text \<open>
  The two blocks of \<open>parsePrices\<close> that parse the current and the regular price differ in
  one word of the error message only; \<open>parseOptional\<close> is that block. It returns the parsed
  price and the messages pushed onto \<open>errors\<close>. A text that is \<open>null\<close>, \<open>undefined\<close> or
  empty is falsy and is not parsed.
\<close>

definition parseOptional ::
  "string \<Rightarrow> string option \<Rightarrow> js_error + (ParsedPrice option \<times> string list)" where
  "parseOptional label priceText =
     (case priceText of
        None \<Rightarrow> Inr (None, [])
      | Some t \<Rightarrow>
          if t = [] then Inr (None, [])
          else (case parsePrice (JString t) of
                  Inl e \<Rightarrow> Inl e
                | Inr (Some parsed) \<Rightarrow> Inr (Some parsed, [])
                | Inr None \<Rightarrow>
                    Inr (None, [''Failed to parse '' @ label @ '' price: '' @ quoted t])))"

definition parsePrices ::
  "string option \<Rightarrow> string option \<Rightarrow> string option \<Rightarrow> js_error + PriceParsingResult" where
  "parsePrices currentPriceText regularPriceText promo =
     (case parseOptional ''current'' currentPriceText of
        Inl e \<Rightarrow> Inl e
      | Inr (cur, errors1) \<Rightarrow>
          (case parseOptional ''regular'' regularPriceText of
             Inl e \<Rightarrow> Inl e
           | Inr (reg, errors2) \<Rightarrow>
               Inr \<lparr>currentPrice = cur,
                    regularPrice = reg,
                    discountPercent =
                      (case (cur, reg) of
                         (Some c, Some r) \<Rightarrow>
                           if price_value r > price_value c
                           then Some (Math_round
                                  (((price_value r - price_value c) / price_value r) * 100))
                           else None
                       | _ \<Rightarrow> None),
                    promoText =
                      (case promo of
                         None \<Rightarrow> None
                       | Some p \<Rightarrow> if trim p = [] then None else Some (trim p)),
                    errors = errors1 @ errors2\<rparr>))"

subsection \<open>The validation gate\<close>


section \<open>The fallback locator\<close>











subsection \<open>\<open>extractRegularPriceFromPage\<close>\<close>








subsection \<open>\<open>extractPriceFromPage\<close>\<close>




section \<open>Notions of the specification\<close>

text \<open>
  The amount of a match (\<open>parseFloat\<close> of the capture without its commas), and the parse of
  an optional text: \<open>None\<close> when the text is absent or \<open>parsePrice\<close> returns \<open>null\<close>.
\<close>

definition amount :: "rmatch \<Rightarrow> number option" where
  "amount m = parseFloat (filter (\<lambda>c. c \<noteq> CHR '','') (m1 m))"


text \<open>
  A match is a savings callout when the text holds \<open>save\<close>, the pattern built from its
  capture (\<open>save\<close>, optional white space, an optional dollar sign, the capture, a word
  boundary) matches the text, and its amount is below 50. A match is plausible when its
  amount is positive and it is not a savings callout.
\<close>

definition saveCallout :: "string \<Rightarrow> rmatch \<Rightarrow> bool" where
  "saveCallout text m =
     (str_includes (toLowerCase text) ''save''
      \<and> (case savePattern (m1 m) of Inl e \<Rightarrow> False | Inr re \<Rightarrow> regexTest re text)
      \<and> (case amount m of None \<Rightarrow> False | Some v \<Rightarrow> v < 50))"

definition plausible :: "string \<Rightarrow> rmatch \<Rightarrow> bool" where
  "plausible text m =
     (case amount m of None \<Rightarrow> False | Some v \<Rightarrow> 0 < v \<and> \<not> saveCallout text m)"

text \<open>The code units that some atom of a regular expression accepts.\<close>

fun charsOf :: "regex \<Rightarrow> char \<Rightarrow> bool" where
  "charsOf (Atom a) c = cmatch a c"
| "charsOf Eps c = False"
| "charsOf WordB c = False"
| "charsOf (Seq r1 r2) c = (charsOf r1 c \<or> charsOf r2 c)"
| "charsOf (Alt r1 r2) c = (charsOf r1 c \<or> charsOf r2 c)"
| "charsOf (Star r) c = charsOf r c"

definition isPriceChar :: "char \<Rightarrow> bool" where
  "isPriceChar c = (isDigit c \<or> c = CHR '','' \<or> c = CHR ''.'')"








definition noMatch :: "regex \<Rightarrow> string \<Rightarrow> bool" where
  "noMatch r s = (\<forall>p. ends r (p, s) = [])"








section \<open>Lemmas\<close>

declare ends.simps(7) [simp del]
declare matchAllFrom.simps [simp del]

lemma ends_sound:
  "st' \<in> set (ends r st) \<Longrightarrow> \<exists>w. snd st = w @ snd st' \<and> (\<forall>c\<in>set w. charsOf r c)"
proof (induction r st arbitrary: st' rule: ends.induct)
  case (1 a p)
  then show ?case by simp
next
  case (2 a p c cs)
  then show ?case by (auto split: if_splits intro: exI[of _ "[c]"])
next
  case (3 st)
  then show ?case by simp
next
  case (4 st)
  then show ?case by (simp split: if_splits)
next
  case (5 r1 r2 st)
  from "5.prems" obtain s1 where s1: "s1 \<in> set (ends r1 st)" and s2: "st' \<in> set (ends r2 s1)"
    by auto
  from "5.IH"(1)[OF s1] obtain w1 where w1: "snd st = w1 @ snd s1" "\<forall>c\<in>set w1. charsOf r1 c"
    by blast
  from "5.IH"(2)[OF s1 s2] obtain w2 where w2: "snd s1 = w2 @ snd st'" "\<forall>c\<in>set w2. charsOf r2 c"
    by blast
  show ?case
    by (rule exI[of _ "w1 @ w2"]) (use w1 w2 in auto)
next
  case (6 r1 r2 st)
  then show ?case by fastforce
next
  case (7 r st)
  show ?case
  proof (cases "st' = st")
    case True
    then show ?thesis by simp
  next
    case False
    from "7.prems" have "st' \<in> set (concat (map (\<lambda>s. if length (snd s) < length (snd st)
        then ends (Star r) s else []) (ends r st)) @ [st])"
      by (subst (asm) ends.simps(7))
    with False obtain s1 where s1: "s1 \<in> set (ends r st)"
      and lt: "length (snd s1) < length (snd st)" and s2: "st' \<in> set (ends (Star r) s1)"
      by (auto split: if_splits)
    from "7.IH"(1)[OF s1] obtain w1 where w1: "snd st = w1 @ snd s1" "\<forall>c\<in>set w1. charsOf r c"
      by blast
    from "7.IH"(2)[OF s1 lt s2] obtain w2 where w2: "snd s1 = w2 @ snd st'" "\<forall>c\<in>set w2. charsOf (Star r) c"
      by blast
    show ?thesis
      by (rule exI[of _ "w1 @ w2"]) (use w1 w2 in auto)
  qed
qed

lemma consumed_chars:
  assumes "st' \<in> set (ends r st)"
  shows "\<forall>c\<in>set (consumed st st'). charsOf r c"
proof -
  from ends_sound[OF assms] obtain w where "snd st = w @ snd st'" "\<forall>c\<in>set w. charsOf r c"
    by blast
  then show ?thesis by (simp add: consumed_def)
qed

lemma matchAt_group:
  assumes "matchAt pat st = Some (m, st')"
  shows "\<forall>c\<in>set (m1 m). charsOf (group1 pat) c"
proof -
  let ?all = "concat (map (\<lambda>s1. concat (map (\<lambda>s2. map (\<lambda>s3. (s1, s2, s3))
                (ends (after_group pat) s2)) (ends (group1 pat) s1))) (ends (before_group pat) st))"
  from assms obtain s1 s2 s3 rest where hd: "?all = (s1, s2, s3) # rest"
    and m: "m = \<lparr>m0 = consumed st s3, m1 = consumed s1 s2\<rparr>"
    by (auto simp: matchAt_def split: list.splits)
  have "(s1, s2, s3) \<in> set ?all" by (simp add: hd)
  then have "s2 \<in> set (ends (group1 pat) s1)" by auto
  then show ?thesis using consumed_chars m by simp
qed

lemma matchAllFrom_group:
  "m \<in> set (matchAllFrom pat st) \<Longrightarrow> \<forall>c\<in>set (m1 m). charsOf (group1 pat) c"
proof (induction pat st rule: matchAllFrom.induct)
  case (1 pat p cs)
  note mem = "1.prems"[unfolded matchAllFrom.simps[of pat p cs]]
  show ?case
  proof (cases "matchAt pat (p, cs)")
    case None
    with 1 mem show ?thesis by (cases cs) auto
  next
    case (Some a)
    obtain m' p' cs' where a: "a = (m', (p', cs'))" by (cases a) auto
    have g: "\<forall>c\<in>set (m1 m'). charsOf (group1 pat) c"
      using matchAt_group Some a by blast
    show ?thesis
    proof (cases "length cs' < length cs")
      case True
      with 1 mem Some a g show ?thesis by auto
    next
      case False
      with 1 mem Some a g show ?thesis by (cases cs) auto
    qed
  qed
qed

lemma pricePatterns_chars:
  "pat \<in> set pricePatterns \<Longrightarrow> charsOf (group1 pat) c \<Longrightarrow> isPriceChar c"
  by (auto simp: pricePatterns_def dollarPattern_def decimalPattern_def numberPattern_def
      digitGroups_def between_def Opt_def Plus_def numeral_eq_Suc isPriceChar_def)

lemma matchAll_priceChars:
  assumes "pat \<in> set pricePatterns" "m \<in> set (matchAll text pat)"
  shows "\<forall>c\<in>set (m1 m). isPriceChar c"
  using assms matchAllFrom_group pricePatterns_chars unfolding matchAll_def by blast

lemma compileSource_priceChars:
  "\<forall>c\<in>set s. isPriceChar c \<Longrightarrow> \<exists>r. compileSource s = Inr r"
proof (induction s)
  case Nil
  then show ?case by simp
next
  case (Cons c s)
  then obtain r where r: "compileSource s = Inr r" by auto
  from Cons.prems have "isPriceChar c" by simp
  then have "c = CHR ''.'' \<or> \<not> isSyntaxCharacter c"
    by (auto simp: isPriceChar_def isDigit_def isSyntaxCharacter_def)
  then show ?case using r by auto
qed

lemma savePattern_priceChars:
  "\<forall>c\<in>set s. isPriceChar c \<Longrightarrow> \<exists>r. savePattern s = Inr r"
  using compileSource_priceChars[of s] by (auto simp: savePattern_def)

lemma scanMatches_total:
  "\<forall>m\<in>set ms. \<forall>c\<in>set (m1 m). isPriceChar c \<Longrightarrow> \<exists>r. scanMatches text ms = Inr r"
proof (induction ms)
  case Nil
  then show ?case by simp
next
  case (Cons m ms)
  then obtain r where r: "scanMatches text ms = Inr r" by auto
  from Cons.prems obtain re where re: "savePattern (m1 m) = Inr re"
    using savePattern_priceChars[of "m1 m"] by auto
  show ?case using r re by (auto simp: Let_def split: option.splits)
qed

lemma scanMatches_positive:
  "scanMatches text ms = Inr (Some v) \<Longrightarrow> v > 0"
  by (induction ms) (auto simp: Let_def split: option.splits if_splits sum.splits)

lemma scanPatterns_total:
  "set pats \<subseteq> set pricePatterns \<Longrightarrow> \<exists>r. scanPatterns text pats = Inr r"
proof (induction pats)
  case Nil
  then show ?case by simp
next
  case (Cons pat pats)
  then obtain r where r: "scanPatterns text pats = Inr r" by auto
  from Cons.prems have "pat \<in> set pricePatterns" by simp
  then have "\<forall>m\<in>set (matchAll text pat). \<forall>c\<in>set (m1 m). isPriceChar c"
    using matchAll_priceChars by blast
  then obtain r' where "scanMatches text (matchAll text pat) = Inr r'"
    using scanMatches_total by blast
  then show ?case using r by (auto simp: Let_def split: option.splits)
qed

lemma scanPatterns_positive:
  "scanPatterns text pats = Inr (Some v) \<Longrightarrow> v > 0"
  by (induction pats)
     (auto simp: Let_def split: option.splits if_splits sum.splits dest: scanMatches_positive)

lemma extractNumericPrice_total: "\<exists>r. extractNumericPrice text = Inr r"
  using scanPatterns_total[of pricePatterns] by (auto simp: extractNumericPrice_def)

lemma extractNumericPrice_positive: "extractNumericPrice text = Inr (Some v) \<Longrightarrow> v > 0"
  by (auto simp: extractNumericPrice_def split: if_splits dest: scanPatterns_positive)

lemma parsePrice_total: "\<exists>r. parsePrice v = Inr r"
proof (cases v)
  case (JString s)
  obtain r where "extractNumericPrice (trim s) = Inr r"
    using extractNumericPrice_total by blast
  then show ?thesis using JString
    by (auto simp: parsePrice_def Let_def split: option.splits)
qed (simp_all add: parsePrice_def)


lemma parsePrice_originalText:
  "parsePrice (JString s) = Inr (Some p) \<Longrightarrow> originalText p = trim s"
  by (auto simp: parsePrice_def Let_def split: if_splits sum.splits option.splits)

lemma parseOptional_total: "\<exists>cur errs. parseOptional label t = Inr (cur, errs)"
proof (cases t)
  case None
  then show ?thesis by (simp add: parseOptional_def)
next
  case (Some s)
  obtain r where "parsePrice (JString s) = Inr r" using parsePrice_total by blast
  then show ?thesis using Some by (cases r) (auto simp: parseOptional_def)
qed


lemma parsePrices_total: "\<exists>r. parsePrices ct rt pt = Inr r"
proof -
  obtain cur e1 where c: "parseOptional ''current'' ct = Inr (cur, e1)"
    using parseOptional_total by blast
  obtain reg e2 where r: "parseOptional ''regular'' rt = Inr (reg, e2)"
    using parseOptional_total by blast
  show ?thesis by (simp add: parsePrices_def c r)
qed






lemma scanMatches_nonpositive:
  "\<forall>m\<in>set ms. \<forall>v. amount m = Some v \<longrightarrow> v \<le> 0 \<Longrightarrow> scanMatches t ms = Inr None"
  by (induction ms) (auto simp: amount_def Let_def split: option.splits)

lemma scanPatterns_nonpositive:
  "\<forall>pat\<in>set pats. \<forall>m\<in>set (matchAll t pat). \<forall>v. amount m = Some v \<longrightarrow> v \<le> 0
   \<Longrightarrow> scanPatterns t pats = Inr None"
proof (induction pats)
  case Nil
  then show ?case by simp
next
  case (Cons pat pats)
  then have a: "scanMatches t (matchAll t pat) = Inr None"
    using scanMatches_nonpositive[of "matchAll t pat" t] by simp
  from Cons have b: "scanPatterns t pats = Inr None" by simp
  show ?case by (simp add: a b Let_def)
qed

lemma dropWhile_all: "\<forall>c\<in>set s. P c \<Longrightarrow> dropWhile P s = []"
  by (induction s) auto

lemma trim_spaces: "\<forall>c\<in>set s. isSpace c \<Longrightarrow> trim s = []"
  by (simp add: trim_def dropWhile_all)


lemma scanMatches_find:
  "\<forall>m\<in>set ms. \<forall>c\<in>set (m1 m). isPriceChar c \<Longrightarrow>
   scanMatches t ms = Inr (case find (plausible t) ms of None \<Rightarrow> None | Some m \<Rightarrow> amount m)"
proof (induction ms)
  case Nil
  then show ?case by simp
next
  case (Cons m ms)
  then have IH: "scanMatches t ms =
      Inr (case find (plausible t) ms of None \<Rightarrow> None | Some m \<Rightarrow> amount m)" by simp
  from Cons.prems obtain re where re: "savePattern (m1 m) = Inr re"
    using savePattern_priceChars[of "m1 m"] by auto
  show ?case
  proof (cases "amount m")
    case None
    then have "\<not> plausible t m" by (simp add: plausible_def)
    then show ?thesis using IH None by (simp add: Let_def amount_def[symmetric])
  next
    case (Some v)
    have sc: "saveCallout t m \<longleftrightarrow>
        (str_includes (toLowerCase t) ''save'' \<and> regexTest re t \<and> v < 50)"
      by (simp add: saveCallout_def re Some)
    have pm: "plausible t m \<longleftrightarrow> (0 < v \<and> \<not> saveCallout t m)"
      by (simp add: plausible_def Some)
    show ?thesis using IH Some re
      by (auto simp: Let_def amount_def[symmetric] pm sc)
  qed
qed

lemma scanMatches_tier:
  assumes "pat \<in> set pricePatterns"
  shows "scanMatches t (matchAll t pat) =
     Inr (case find (plausible t) (matchAll t pat) of None \<Rightarrow> None | Some m \<Rightarrow> amount m)"
  using assms matchAll_priceChars scanMatches_find by blast

lemma find_plausible_amount:
  "find (plausible t) ms = Some m \<Longrightarrow> \<exists>v. amount m = Some v \<and> 0 < v"
  by (auto simp: find_Some_iff plausible_def split: option.splits)

lemma matchAll_empty_dollar: "matchAll [] dollarPattern = []"
  by (simp add: matchAll_def matchAllFrom.simps matchAt_def dollarPattern_def)

lemma trim_Nil: "trim [] = []"
  by (simp add: trim_def)

lemma extractNumericPrice_first_tier:
  assumes f: "find (plausible t) (matchAll t dollarPattern) = Some m"
  shows "extractNumericPrice t = Inr None \<or> extractNumericPrice t = Inr (amount m)"
    and "\<not> str_includes t ''$-'' \<Longrightarrow> \<not> regexTest negativePattern t
         \<Longrightarrow> extractNumericPrice t = Inr (amount m)"
proof -
  have s: "scanMatches t (matchAll t dollarPattern) = Inr (amount m)"
    using scanMatches_tier[of dollarPattern t] f by (simp add: pricePatterns_def)
  obtain v where v: "amount m = Some v" using find_plausible_amount[OF f] by blast
  have ne: "matchAll t dollarPattern \<noteq> []" using f by auto
  have sp: "scanPatterns t pricePatterns = Inr (amount m)"
    using s v ne by (simp add: pricePatterns_def)
  show "extractNumericPrice t = Inr None \<or> extractNumericPrice t = Inr (amount m)"
    using sp by (simp add: extractNumericPrice_def)
  show "\<not> str_includes t ''$-'' \<Longrightarrow> \<not> regexTest negativePattern t
         \<Longrightarrow> extractNumericPrice t = Inr (amount m)"
    using sp by (simp add: extractNumericPrice_def)
qed



lemma nm_Atom: "\<not> cmatch a c \<Longrightarrow> noMatch (Atom a) (c # cs)"
  by (simp add: noMatch_def)










































































section \<open>The claims\<close>







text \<open>
  Claim C4 (unusable input). \<open>parsePrice\<close> returns \<open>null\<close> for every string of white
  space (the empty string too), for every value that is not a string, for every text all
  of whose extractable amounts (the amounts of the matches of the three patterns) are not
  positive, and for every text that holds \<open>$-\<close>; in particular for \<open>$0.00\<close> and \<open>$-5.99\<close>.
  It never throws.
\<close>

theorem parsePrice_rejects_unusable:
  "(\<forall>s. (\<forall>c\<in>set s. isSpace c) \<longrightarrow> parsePrice (JString s) = Inr None) \<and>
   (\<forall>v. (\<forall>s. v \<noteq> JString s) \<longrightarrow> parsePrice v = Inr None) \<and>
   (\<forall>s. (\<forall>pat\<in>set pricePatterns. \<forall>m\<in>set (matchAll (trim s) pat).
            \<forall>v. amount m = Some v \<longrightarrow> v \<le> 0)
        \<longrightarrow> parsePrice (JString s) = Inr None) \<and>
   (\<forall>s. str_includes (trim s) ''$-'' \<longrightarrow> parsePrice (JString s) = Inr None) \<and>
   parsePrice (JString ''$0.00'') = Inr None \<and>
   parsePrice (JString ''$-5.99'') = Inr None \<and>
   (\<forall>v e. parsePrice v \<noteq> Inl e)"
proof (intro conjI allI impI)
  fix s :: string assume "\<forall>c\<in>set s. isSpace c"
  then have "trim s = []" by (rule trim_spaces)
  then show "parsePrice (JString s) = Inr None" by (simp add: parsePrice_def)
next
  fix v assume "\<forall>s. v \<noteq> JString s"
  then show "parsePrice v = Inr None" by (cases v) (simp_all add: parsePrice_def)
next
  fix s assume "\<forall>pat\<in>set pricePatterns. \<forall>m\<in>set (matchAll (trim s) pat).
            \<forall>v. amount m = Some v \<longrightarrow> v \<le> 0"
  then have "scanPatterns (trim s) pricePatterns = Inr None" by (rule scanPatterns_nonpositive)
  then have "extractNumericPrice (trim s) = Inr None" by (simp add: extractNumericPrice_def)
  then show "parsePrice (JString s) = Inr None" by (simp add: parsePrice_def Let_def)
next
  fix s assume "str_includes (trim s) ''$-''"
  then have "extractNumericPrice (trim s) = Inr None" by (simp add: extractNumericPrice_def)
  then show "parsePrice (JString s) = Inr None" by (simp add: parsePrice_def Let_def)
next
  show "parsePrice (JString ''$0.00'') = Inr None" by code_simp
next
  show "parsePrice (JString ''$-5.99'') = Inr None" by code_simp
next
  fix v e show "parsePrice v \<noteq> Inl e" using parsePrice_total[of v] by auto
qed

theorem parsePrice_rejects_unusable_witness:
  "parsePrice (JString ''   '') = Inr None \<and> parsePrice JNull = Inr None \<and>
   parsePrice JUndefined = Inr None \<and> parsePrice (JNumber 123) = Inr None \<and>
   parsePrice (JString '' $-1 '') = Inr None"
proof -
  have a: "\<forall>c\<in>set ''   ''. isSpace c" by (simp add: isSpace_def)
  have d: "str_includes (trim '' $-1 '') ''$-''" by code_simp
  show ?thesis
    using parsePrice_rejects_unusable a d by simp
qed




text \<open>
  Claim C6 (save-amount skip, source order). Within each of the three patterns the scan
  returns the amount of the first plausible match in source order, skipping the matches
  that are savings callouts or not positive (and returns nothing when no match is
  plausible); \<open>parsePrice\<close> of \<open>Save $5 - Now $19.99\<close> has the value 19.99 and is a sale
  price.
\<close>

theorem scanMatches_first_plausible:
  "(\<forall>pat\<in>set pricePatterns.
      scanMatches t (matchAll t pat) =
        Inr (case find (plausible t) (matchAll t pat) of None \<Rightarrow> None | Some m \<Rightarrow> amount m))
   \<and> parsePrice (JString ''Save $5 - Now $19.99'') =
       Inr (Some \<lparr>price_value = 1999 / 100, originalText = ''Save $5 - Now $19.99'',
               currency = Some ''CAD'', isSalePrice = Some True, price_context = None\<rparr>)"
proof
  show "\<forall>pat\<in>set pricePatterns.
      scanMatches t (matchAll t pat) =
        Inr (case find (plausible t) (matchAll t pat) of None \<Rightarrow> None | Some m \<Rightarrow> amount m)"
    using scanMatches_tier by blast
  show "parsePrice (JString ''Save $5 - Now $19.99'') =
       Inr (Some \<lparr>price_value = 1999 / 100, originalText = ''Save $5 - Now $19.99'',
               currency = Some ''CAD'', isSalePrice = Some True, price_context = None\<rparr>)"
    by code_simp
qed

theorem scanMatches_first_plausible_witness:
  "matchAll ''Save $5 - Now $19.99'' dollarPattern =
     [\<lparr>m0 = ''$5'', m1 = ''5''\<rparr>, \<lparr>m0 = ''$19.99'', m1 = ''19.99''\<rparr>]
   \<and> saveCallout ''Save $5 - Now $19.99'' \<lparr>m0 = ''$5'', m1 = ''5''\<rparr>
   \<and> \<not> saveCallout ''Save $5 - Now $19.99'' \<lparr>m0 = ''$19.99'', m1 = ''19.99''\<rparr>
   \<and> scanMatches ''Save $5 - Now $19.99'' (matchAll ''Save $5 - Now $19.99'' dollarPattern)
       = Inr (Some (1999 / 100))"
proof -
  have ms: "matchAll ''Save $5 - Now $19.99'' dollarPattern =
     [\<lparr>m0 = ''$5'', m1 = ''5''\<rparr>, \<lparr>m0 = ''$19.99'', m1 = ''19.99''\<rparr>]"
    by code_simp
  have c1: "saveCallout ''Save $5 - Now $19.99'' \<lparr>m0 = ''$5'', m1 = ''5''\<rparr>"
    by code_simp
  have c2: "\<not> saveCallout ''Save $5 - Now $19.99'' \<lparr>m0 = ''$19.99'', m1 = ''19.99''\<rparr>"
    by code_simp
  have a1: "amount \<lparr>m0 = ''$5'', m1 = ''5''\<rparr> = Some 5" by code_simp
  have a2: "amount \<lparr>m0 = ''$19.99'', m1 = ''19.99''\<rparr> = Some (1999 / 100)" by code_simp
  have d: "dollarPattern \<in> set pricePatterns" by (simp add: pricePatterns_def)
  have "scanMatches ''Save $5 - Now $19.99'' (matchAll ''Save $5 - Now $19.99'' dollarPattern)
       = Inr (case find (plausible ''Save $5 - Now $19.99'')
                 (matchAll ''Save $5 - Now $19.99'' dollarPattern) of
               None \<Rightarrow> None | Some m \<Rightarrow> amount m)"
    using scanMatches_first_plausible[of "''Save $5 - Now $19.99''"] d by blast
  then show ?thesis
    using c1 c2 a1 a2 unfolding ms by (simp add: plausible_def)
qed

text \<open>
  Claim C7 (first tier wins), as stated, fails: in \<open>$0 5.99\<close> the dollar pattern has a
  match, \<open>$0\<close>, whose amount is not positive; the scan goes on to the second pattern and
  \<open>parsePrice\<close> returns 5.99, the amount of no match of the dollar pattern.
\<close>

theorem first_tier_wins_counterexample:
  "matchAll ''$0 5.99'' dollarPattern = [\<lparr>m0 = ''$0'', m1 = ''0''\<rparr>]
   \<and> amount \<lparr>m0 = ''$0'', m1 = ''0''\<rparr> = Some 0
   \<and> matchAll ''$0 5.99'' decimalPattern = [\<lparr>m0 = ''5.99'', m1 = ''5.99''\<rparr>]
   \<and> parsePrice (JString ''$0 5.99'') =
       Inr (Some \<lparr>price_value = 599 / 100, originalText = ''$0 5.99'',
               currency = Some ''CAD'', isSalePrice = Some False, price_context = None\<rparr>)
   \<and> \<not> (\<exists>m\<in>set (matchAll ''$0 5.99'' dollarPattern). amount m = Some (599 / 100))"
  by code_simp

text \<open>
  Claim C7, amended: when the dollar pattern has a plausible match, the value that
  \<open>parsePrice\<close> returns (when it returns one) is the amount of the first plausible match of
  the dollar pattern, and it returns one unless the negative check rejects the text. The
  other two patterns are the source of the result only when no match of the dollar
  pattern is plausible.
\<close>

theorem first_plausible_tier_wins:
  assumes "find (plausible (trim s)) (matchAll (trim s) dollarPattern) = Some m"
  shows "(\<forall>p. parsePrice (JString s) = Inr (Some p) \<longrightarrow> amount m = Some (price_value p))
    \<and> (\<not> str_includes (trim s) ''$-'' \<and> \<not> regexTest negativePattern (trim s)
        \<longrightarrow> (\<exists>p. parsePrice (JString s) = Inr (Some p)))"
proof -
  note e = extractNumericPrice_first_tier[OF assms]
  obtain v where v: "amount m = Some v" "0 < v" using find_plausible_amount[OF assms] by blast
  have t: "trim s \<noteq> []" using assms matchAll_empty_dollar by auto
  then have s: "s \<noteq> []" using trim_Nil by auto
  have a: "\<forall>p. parsePrice (JString s) = Inr (Some p) \<longrightarrow> amount m = Some (price_value p)"
    using e(1) v by (auto simp: parsePrice_def Let_def split: if_splits)
  have b: "\<not> str_includes (trim s) ''$-'' \<and> \<not> regexTest negativePattern (trim s)
        \<longrightarrow> (\<exists>p. parsePrice (JString s) = Inr (Some p))"
    using e(2) v t s by (auto simp: parsePrice_def Let_def)
  show ?thesis using a b by blast
qed

theorem first_plausible_tier_wins_witness:
  "find (plausible ''Save $5 - $7 or 19.99'') (matchAll ''Save $5 - $7 or 19.99'' dollarPattern)
     = Some \<lparr>m0 = ''$7'', m1 = ''7''\<rparr>
   \<and> (\<exists>p. parsePrice (JString ''  Save $5 - $7 or 19.99 '') = Inr (Some p) \<and> price_value p = 7)"
proof -
  have tr: "trim ''  Save $5 - $7 or 19.99 '' = ''Save $5 - $7 or 19.99''" by code_simp
  have f: "find (plausible ''Save $5 - $7 or 19.99'') (matchAll ''Save $5 - $7 or 19.99'' dollarPattern)
     = Some \<lparr>m0 = ''$7'', m1 = ''7''\<rparr>" by code_simp
  have n: "\<not> str_includes ''Save $5 - $7 or 19.99'' ''$-''
     \<and> \<not> regexTest negativePattern ''Save $5 - $7 or 19.99''" by code_simp
  have a: "amount \<lparr>m0 = ''$7'', m1 = ''7''\<rparr> = Some 7" by code_simp
  show ?thesis
    using first_plausible_tier_wins[of "''  Save $5 - $7 or 19.99 ''" "\<lparr>m0 = ''$7'', m1 = ''7''\<rparr>"]
      f n a unfolding tr by auto
qed

text \<open>
  Claim C8 (totality). \<open>parsePrice\<close> returns normally on every value and \<open>parsePrices\<close> on
  every triple of optional texts: the exception branch of the model is unreachable.
\<close>

theorem parsePrice_parsePrices_never_throw:
  "(\<exists>r. parsePrice v = Inr r) \<and> (\<exists>res. parsePrices ct rt pt = Inr res)"
  using parsePrice_total parsePrices_total by blast

theorem parsePrice_parsePrices_never_throw_witness:
  "(\<exists>r. parsePrice (JString [CHR 0x00, CHR 0x07, CHR 0xFF]) = Inr r) \<and>
   (\<exists>res. parsePrices None (Some []) (Some [CHR 0x1B]) = Inr res)"
  using parsePrice_parsePrices_never_throw by blast

text \<open>
  Claim C9 (verbatim \<open>originalText\<close>), as stated, fails: on a text with white space
  around it, \<open>originalText\<close> is the trimmed text.
\<close>

theorem parsePrice_originalText_counterexample:
  "parsePrice (JString ''  $  29.99  '') =
     Inr (Some \<lparr>price_value = 2999 / 100, originalText = ''$  29.99'',
             currency = Some ''CAD'', isSalePrice = Some False, price_context = None\<rparr>)
   \<and> ''$  29.99'' \<noteq> ''  $  29.99  ''"
  by code_simp

text \<open>
  Claim C9, amended: when \<open>parsePrice\<close> succeeds on a string, \<open>originalText\<close> is that string
  without its leading and trailing white space (\<open>trim\<close>).
\<close>

theorem parsePrice_originalText_trimmed:
  "parsePrice (JString s) = Inr (Some p) \<Longrightarrow> originalText p = trim s"
  by (rule parsePrice_originalText)

theorem parsePrice_originalText_trimmed_witness:
  "originalText \<lparr>price_value = 2999 / 100, originalText = ''$  29.99'',
             currency = Some ''CAD'', isSalePrice = Some False, price_context = None\<rparr>
     = trim ''  $  29.99  ''"
proof -
  have e: "parsePrice (JString ''  $  29.99  '') =
     Inr (Some \<lparr>price_value = 2999 / 100, originalText = ''$  29.99'',
             currency = Some ''CAD'', isSalePrice = Some False, price_context = None\<rparr>)"
    by code_simp
  show ?thesis using parsePrice_originalText_trimmed[OF e] .
qed



end
